theory Spec2Isabelle
  imports Complex_Main
begin

section \<open>parabot: parallel execution of Robot Framework suites\<close>

text \<open>
  A shallow embedding of \<^verbatim>\<open>parabot/parabot.py\<close>. The module runs the external
  Robot Framework entry point \<^verbatim>\<open>robot.run.run\<close> once per test file (in a
  \<^verbatim>\<open>multiprocessing\<close> pool with a timeout) or once per tag (one
  \<^verbatim>\<open>Process\<close> per tag). Everything the module does beyond returning a value is
  written out: the captured output buffers, the console, the exceptions that
  propagate and the calls that never return.

  The collaborators that are not part of the module (the Runner, the helpers of
  \<^verbatim>\<open>parabot.utils\<close>, the pool and the operating system) are parameters of the
  model: what they do is supplied, what the module does with it is computed.
\<close>

subsection \<open>Values, exceptions and results\<close>

text \<open>
  The exceptions that can travel through the module: \<^verbatim>\<open>multiprocessing.TimeoutError\<close>
  (the only one the module catches), \<^verbatim>\<open>ValueError\<close> (reading a closed
  \<^verbatim>\<open>StringIO\<close>), \<^verbatim>\<open>AssertionError\<close> (joining a process that was never
  started) and any other exception, identified by its message.
\<close>

datatype exn = TimeoutError | ValueError | AssertionError | OtherError string

text \<open>
  A call either blocks forever, raises, or returns a value. The console (the lines
  printed so far) is passed through every call that can print.
\<close>

datatype 'a result = Never_returns | Raises exn | Returns 'a

type_synonym console = "string list"

text \<open>
  \<^verbatim>\<open>print\<close> can raise: the text cannot be encoded for the stream, or the stream
  is a pipe whose reader has gone. The device the process writes to says, for
  each text, which exception printing it raises, if any; \<^verbatim>\<open>accepting\<close> is a
  device that takes every text.
\<close>

type_synonym device = "string \<Rightarrow> exn option"

definition accepting :: device where
  "accepting s = None"

definition print :: "device \<Rightarrow> string \<Rightarrow> console \<Rightarrow> exn + console" where
  "print dev s c = (case dev s of None \<Rightarrow> Inr (c @ [s]) | Some e \<Rightarrow> Inl e)"

text \<open>
  A \<^verbatim>\<open>pathlib.PurePath\<close> is the list of its parts, so \<^verbatim>\<open>./\<close> is the empty list.
  \<^verbatim>\<open>PurePath.name\<close> is the last part, the empty string when there is none.
\<close>

type_synonym path = "string list"

definition path_name :: "path \<Rightarrow> string" where
  "path_name p = (if p = [] then [] else last p)"

subsection \<open>The capture buffers\<close>

text \<open>
  \<^verbatim>\<open>io.StringIO\<close>: the text held and whether \<^verbatim>\<open>close()\<close> has been called.
  Both \<^verbatim>\<open>StringIO()\<close> and \<^verbatim>\<open>StringIO("")\<close> create an open, empty buffer.
  \<^verbatim>\<open>getvalue()\<close> raises \<^verbatim>\<open>ValueError\<close> on a closed buffer.
\<close>

record stringio =
  held :: string
  is_closed :: bool

definition StringIO :: stringio where
  "StringIO = \<lparr>held = [], is_closed = False\<rparr>"

definition write_text :: "string \<Rightarrow> stringio \<Rightarrow> stringio" where
  "write_text s b = b\<lparr>held := held b @ s\<rparr>"

definition getvalue :: "stringio \<Rightarrow> exn + string" where
  "getvalue b = (if is_closed b then Inl ValueError else Inr (held b))"

definition close :: "stringio \<Rightarrow> stringio" where
  "close b = b\<lparr>is_closed := True\<rparr>"

subsection \<open>The Runner and the helpers of parabot.utils\<close>

text \<open>
  What one call of \<^verbatim>\<open>robot.run.run\<close> does, as far as the module can observe it:
  the text it writes to the two streams it was given, and how it ends (it returns
  its return code, or an exception leaves it).
\<close>

record behaviour =
  to_stdout :: string
  to_stderr :: string
  ending :: "exn + int"

text \<open>
  \<^verbatim>\<open>run env target outputdir include\<close> is the Runner called on a target with the
  keyword arguments \<^verbatim>\<open>outputdir\<close> and \<^verbatim>\<open>include\<close> (the empty list when the
  keyword is not passed). \<^verbatim>\<open>get_parent_dir\<close> and \<^verbatim>\<open>create_output_folder\<close> are the
  two helpers the workers import from \<^verbatim>\<open>parabot.utils\<close>.
\<close>

record runner_env =
  run :: "path \<Rightarrow> path \<Rightarrow> string list \<Rightarrow> behaviour"
  get_parent_dir :: "path \<Rightarrow> path"
  create_output_folder :: "path \<Rightarrow> string \<Rightarrow> path"

subsection \<open>The workers\<close>

text \<open>
  How a worker invocation leaves: its result, the two buffers it created as they
  are at that moment, and the console.
\<close>

record worker_exit =
  outcome :: "int option result"
  stdout_buf :: stringio
  stderr_buf :: stringio
  printed :: console

text \<open>
  \<^verbatim>\<open>_check_stderr\<close>, in a process that writes to the device \<^verbatim>\<open>dev\<close>: a
  non-empty buffer is printed, closed, and gives 1; an empty one is closed and
  gives \<^verbatim>\<open>None\<close>. The \<^verbatim>\<open>print\<close> comes before the \<^verbatim>\<open>close()\<close>: if it
  raises, the buffer stays open.
\<close>

definition check_stderr_on ::
  "device \<Rightarrow> stringio \<Rightarrow> console \<Rightarrow> int option result \<times> stringio \<times> console" where
  "check_stderr_on dev stderr c =
     (case getvalue stderr of
        Inl e \<Rightarrow> (Raises e, stderr, c)
      | Inr v \<Rightarrow>
          if v \<noteq> [] then
            (case print dev v c of
               Inl e \<Rightarrow> (Raises e, stderr, c)
             | Inr c' \<Rightarrow> (Returns (Some 1), close stderr, c'))
          else (Returns None, close stderr, c))"

text \<open>\<^verbatim>\<open>_check_stderr\<close> where every text can be printed.\<close>

definition check_stderr :: "stringio \<Rightarrow> console \<Rightarrow> int option result \<times> stringio \<times> console" where
  "check_stderr stderr c = check_stderr_on accepting stderr c"

text \<open>The output directory each worker passes to the Runner as \<^verbatim>\<open>outputdir\<close>.
  The string \<^verbatim>\<open>"./reports/"\<close> names the directory with the single part
  \<^verbatim>\<open>reports\<close>.\<close>

definition path_outputdir :: "runner_env \<Rightarrow> path \<Rightarrow> path" where
  "path_outputdir env filepath =
     (let basepath = get_parent_dir env filepath
      in create_output_folder env basepath (path_name filepath))"

definition tag_outputdir :: "runner_env \<Rightarrow> string \<Rightarrow> path" where
  "tag_outputdir env tag = create_output_folder env [''reports''] tag"

text \<open>
  \<^verbatim>\<open>path_worker\<close>, in a process that writes to the device \<^verbatim>\<open>dev\<close>: two fresh
  buffers, the Runner on the file, then standard output is printed and closed and
  the result is that of \<^verbatim>\<open>_check_stderr\<close>. The Runner's return code is not
  stored. There is no \<^verbatim>\<open>try\<close> in the worker: an exception that leaves the Runner
  or a \<^verbatim>\<open>print\<close> leaves the worker at once, with the buffers as they are.
\<close>

definition path_worker_on :: "device \<Rightarrow> runner_env \<Rightarrow> path \<Rightarrow> console \<Rightarrow> worker_exit" where
  "path_worker_on dev env filepath c =
     (let b = run env filepath (path_outputdir env filepath) [];
          stdout = write_text (to_stdout b) StringIO;
          stderr = write_text (to_stderr b) StringIO
      in case ending b of
           Inl e \<Rightarrow> \<lparr>outcome = Raises e, stdout_buf = stdout, stderr_buf = stderr, printed = c\<rparr>
         | Inr rc \<Rightarrow>
             (case getvalue stdout of
                Inl e \<Rightarrow> \<lparr>outcome = Raises e, stdout_buf = stdout, stderr_buf = stderr, printed = c\<rparr>
              | Inr v \<Rightarrow>
                  (case print dev v c of
                     Inl e \<Rightarrow>
                       \<lparr>outcome = Raises e, stdout_buf = stdout, stderr_buf = stderr, printed = c\<rparr>
                   | Inr c1 \<Rightarrow>
                       (case check_stderr_on dev stderr c1 of
                          (r, stderr', c') \<Rightarrow>
                            \<lparr>outcome = r, stdout_buf = close stdout, stderr_buf = stderr',
                             printed = c'\<rparr>))))"

text \<open>
  \<^verbatim>\<open>tag_worker\<close>: the same steps, with the Runner called on \<^verbatim>\<open>"./"\<close> and
  \<^verbatim>\<open>include=[tag]\<close>.
\<close>

definition tag_worker_on :: "device \<Rightarrow> runner_env \<Rightarrow> string \<Rightarrow> console \<Rightarrow> worker_exit" where
  "tag_worker_on dev env tag c =
     (let b = run env [] (tag_outputdir env tag) [tag];
          stdout = write_text (to_stdout b) StringIO;
          stderr = write_text (to_stderr b) StringIO
      in case ending b of
           Inl e \<Rightarrow> \<lparr>outcome = Raises e, stdout_buf = stdout, stderr_buf = stderr, printed = c\<rparr>
         | Inr rc \<Rightarrow>
             (case getvalue stdout of
                Inl e \<Rightarrow> \<lparr>outcome = Raises e, stdout_buf = stdout, stderr_buf = stderr, printed = c\<rparr>
              | Inr v \<Rightarrow>
                  (case print dev v c of
                     Inl e \<Rightarrow>
                       \<lparr>outcome = Raises e, stdout_buf = stdout, stderr_buf = stderr, printed = c\<rparr>
                   | Inr c1 \<Rightarrow>
                       (case check_stderr_on dev stderr c1 of
                          (r, stderr', c') \<Rightarrow>
                            \<lparr>outcome = r, stdout_buf = close stdout, stderr_buf = stderr',
                             printed = c'\<rparr>))))"

text \<open>The two workers where every text can be printed.\<close>

definition path_worker :: "runner_env \<Rightarrow> path \<Rightarrow> console \<Rightarrow> worker_exit" where
  "path_worker env filepath c = path_worker_on accepting env filepath c"

definition tag_worker :: "runner_env \<Rightarrow> string \<Rightarrow> console \<Rightarrow> worker_exit" where
  "tag_worker env tag c = tag_worker_on accepting env tag c"

subsection \<open>The bounded pool\<close>

text \<open>
  \<^verbatim>\<open>Union[List[Optional[int]], int]\<close>, the return type of \<^verbatim>\<open>pool_path_workers\<close>.
\<close>

datatype pool_return = Statuses "int option list" | Status int

text \<open>
  The results of the tasks of one \<^verbatim>\<open>map_async\<close> call, put together as
  \<^verbatim>\<open>multiprocessing\<close> does: the result is ready only when every task is done;
  then it is the list of the return values in submission order, or an exception
  if a task raised (the model keeps the first one in submission order).
\<close>

fun gather :: "'b result list \<Rightarrow> 'b list result" where
  "gather [] = Returns []"
| "gather (r # rs) =
     (case gather rs of
        Never_returns \<Rightarrow> Never_returns
      | Raises e' \<Rightarrow> (case r of Never_returns \<Rightarrow> Never_returns | Raises e \<Rightarrow> Raises e | Returns v \<Rightarrow> Raises e')
      | Returns vs \<Rightarrow> (case r of Never_returns \<Rightarrow> Never_returns | Raises e \<Rightarrow> Raises e | Returns v \<Rightarrow> Returns (v # vs)))"

text \<open>
  An \<^verbatim>\<open>AsyncResult\<close>: \<^verbatim>\<open>None\<close> when it never becomes ready, otherwise the
  number of seconds after which it is ready and what it then holds. The batch's
  runtime \<^verbatim>\<open>rt\<close>, the seconds from submission until the result is ready (when
  the last task is done), is given by the environment. The result of an empty
  list is ready when it is created: the runtime of an empty batch is 0.
\<close>

type_synonym 'b async_result = "(real \<times> 'b list result) option"

definition map_async :: "real \<Rightarrow> ('a \<Rightarrow> 'b result) \<Rightarrow> 'a list \<Rightarrow> 'b async_result" where
  "map_async rt worker jobs =
     (case gather (map worker jobs) of
        Never_returns \<Rightarrow> None
      | r \<Rightarrow> Some (rt, r))"

text \<open>
  \<^verbatim>\<open>AsyncResult.get(timeout)\<close>: the call waits for the result, at most
  \<^verbatim>\<open>timeout\<close> seconds when the timeout is not \<^verbatim>\<open>None\<close>, and not at all when
  the timeout is zero or negative. If the result is ready then, the call gives
  it (an exception of a task is raised again), so a result that is ready when
  \<^verbatim>\<open>get\<close> is called is given whatever the timeout; otherwise the call raises
  \<^verbatim>\<open>TimeoutError\<close>. With the timeout \<^verbatim>\<open>None\<close> the call waits as long as it
  takes.
\<close>

definition async_get :: "'b async_result \<Rightarrow> int option \<Rightarrow> 'b list result" where
  "async_get ar timeout =
     (case timeout of
        None \<Rightarrow> (case ar of None \<Rightarrow> Never_returns | Some (t, r) \<Rightarrow> r)
      | Some s \<Rightarrow>
          (case ar of
             None \<Rightarrow> Raises TimeoutError
           | Some (t, r) \<Rightarrow> if t \<le> max 0 (real_of_int s) then r else Raises TimeoutError))"

definition timeout_message :: string where
  "timeout_message =
     ''Your tests are running too long. Consider increasing the timeout via CLI parameter -to or --timeout.''"

text \<open>
  \<^verbatim>\<open>pool_path_workers(path_worker, filepathslist, timeout)\<close>, in a process that
  writes to the device \<^verbatim>\<open>dev\<close>, with the callable it is given as \<^verbatim>\<open>worker\<close>
  and the batch's runtime as \<^verbatim>\<open>rt\<close>: the result of
  \<^verbatim>\<open>map_async(...).get(timeout)\<close> is returned as it is; only \<^verbatim>\<open>TimeoutError\<close> is
  caught, and then the message is printed and 1 is returned (an exception of that
  \<^verbatim>\<open>print\<close> leaves the function). Leaving the \<^verbatim>\<open>with\<close> block terminates
  the pool.
\<close>

definition pool_path_workers_on ::
  "device \<Rightarrow> real \<Rightarrow> ('a \<Rightarrow> int option result) \<Rightarrow> 'a list \<Rightarrow> int option \<Rightarrow> console
     \<Rightarrow> pool_return result \<times> console" where
  "pool_path_workers_on dev rt worker filepathslist timeout c =
     (case async_get (map_async rt worker filepathslist) timeout of
        Returns vs \<Rightarrow> (Returns (Statuses vs), c)
      | Raises e \<Rightarrow>
          if e = TimeoutError then
            (case print dev timeout_message c of
               Inl e' \<Rightarrow> (Raises e', c)
             | Inr c' \<Rightarrow> (Returns (Status 1), c'))
          else (Raises e, c)
      | Never_returns \<Rightarrow> (Never_returns, c))"

text \<open>\<^verbatim>\<open>pool_path_workers\<close> where every text can be printed.\<close>

definition pool_path_workers ::
  "real \<Rightarrow> ('a \<Rightarrow> int option result) \<Rightarrow> 'a list \<Rightarrow> int option \<Rightarrow> console \<Rightarrow> pool_return result \<times> console" where
  "pool_path_workers rt worker filepathslist timeout c =
     pool_path_workers_on accepting rt worker filepathslist timeout c"

text \<open>
  The call \<^verbatim>\<open>pool_path_workers(path_worker, filepathslist)\<close>, without the third
  argument: the parameter takes its default, \<^verbatim>\<open>timeout=60\<close>.
\<close>

definition pool_path_workers_default ::
  "real \<Rightarrow> ('a \<Rightarrow> int option result) \<Rightarrow> 'a list \<Rightarrow> console \<Rightarrow> pool_return result \<times> console" where
  "pool_path_workers_default rt worker filepathslist c =
     pool_path_workers rt worker filepathslist (Some 60) c"

subsection \<open>The unbounded pool\<close>

text \<open>
  What the operating system reports about a child process: it exited with a
  status, a signal terminated it, or it never ends; and, when it ends, how many
  seconds after its start.
\<close>

datatype proc_end = Exited nat | Signalled nat | Never_ends

record os_process =
  how_ends :: proc_end
  ends_after :: real

text \<open>
  A \<^verbatim>\<open>multiprocessing.Process\<close> object created for one tag, with
  \<^verbatim>\<open>tag_worker\<close> as its target. The target runs in the child; the value it
  returns is not handed back, and the parent learns of the child only how it
  ended, which the environment gives for each tag. \<^verbatim>\<open>start()\<close> gives
  the child to the operating system; \<^verbatim>\<open>join()\<close> blocks until the child has ended
  and moves the clock to that moment (or leaves it where it is, if the child ended
  before); joining a process that was not started is an \<^verbatim>\<open>AssertionError\<close>.
  \<^verbatim>\<open>exitcode\<close> is the exit status of a child that has ended, minus the signal
  number if a signal terminated it, and \<^verbatim>\<open>None\<close> while the child is not known
  to have ended: the model takes that to be until it is joined.
\<close>

datatype pstate = Initial | Started | Joined

record process =
  p_args :: string
  p_state :: pstate
  p_child :: os_process

definition Process :: "(string \<Rightarrow> os_process) \<Rightarrow> string \<Rightarrow> process" where
  "Process os tag = \<lparr>p_args = tag, p_state = Initial, p_child = os tag\<rparr>"

definition start :: "process \<Rightarrow> process" where
  "start p = p\<lparr>p_state := Started\<rparr>"

definition join :: "process \<Rightarrow> real \<Rightarrow> (process \<times> real) result" where
  "join p clock =
     (if p_state p = Initial then Raises AssertionError
      else if how_ends (p_child p) = Never_ends then Never_returns
      else Returns (p\<lparr>p_state := Joined\<rparr>, max clock (ends_after (p_child p))))"

fun exit_status :: "proc_end \<Rightarrow> int option" where
  "exit_status (Exited n) = Some (int n)"
| "exit_status (Signalled s) = Some (- int s)"
| "exit_status Never_ends = None"

definition exitcode :: "process \<Rightarrow> int option" where
  "exitcode p = (if p_state p = Joined then exit_status (how_ends (p_child p)) else None)"

text \<open>The \<^verbatim>\<open>for\<close> loop of \<^verbatim>\<open>pool_tag_workers\<close>: create, start, append.\<close>

fun spawn_loop :: "(string \<Rightarrow> os_process) \<Rightarrow> string list \<Rightarrow> process list \<Rightarrow> process list" where
  "spawn_loop os [] procesess = procesess"
| "spawn_loop os (tag # tags) procesess =
     (let p = Process os tag;
          p = start p
      in spawn_loop os tags (procesess @ [p]))"

text \<open>The comprehension \<^verbatim>\<open>[proc.join() for proc in procesess]\<close>.\<close>

fun join_loop :: "process list \<Rightarrow> real \<Rightarrow> (process list \<times> real) result" where
  "join_loop [] clock = Returns ([], clock)"
| "join_loop (proc # procs) clock =
     (case join proc clock of
        Never_returns \<Rightarrow> Never_returns
      | Raises e \<Rightarrow> Raises e
      | Returns (proc', clock') \<Rightarrow>
          (case join_loop procs clock' of
             Never_returns \<Rightarrow> Never_returns
           | Raises e \<Rightarrow> Raises e
           | Returns (procs', clock'') \<Rightarrow> Returns (proc' # procs', clock'')))"

text \<open>
  \<^verbatim>\<open>pool_tag_procs\<close> is \<^verbatim>\<open>pool_tag_workers\<close> up to its last line: the process
  objects as they are when the exit codes are read, and the time on the clock,
  which starts at 0 when the children are spawned.
\<close>

definition pool_tag_procs :: "(string \<Rightarrow> os_process) \<Rightarrow> string list \<Rightarrow> (process list \<times> real) result" where
  "pool_tag_procs os tags = join_loop (spawn_loop os tags []) 0"

definition pool_tag_workers :: "(string \<Rightarrow> os_process) \<Rightarrow> string list \<Rightarrow> int option list result" where
  "pool_tag_workers os tags =
     (case pool_tag_procs os tags of
        Never_returns \<Rightarrow> Never_returns
      | Raises e \<Rightarrow> Raises e
      | Returns (procesess, clock) \<Rightarrow> Returns (map exitcode procesess))"

subsection \<open>The command line and main\<close>

text \<open>
  The parsed command line: \<^verbatim>\<open>args.all\<close>, \<^verbatim>\<open>args.folders\<close>, \<^verbatim>\<open>args.tags\<close> and
  \<^verbatim>\<open>args.timeout\<close>; an option that was not given is \<^verbatim>\<open>None\<close>.
\<close>

record cli_args =
  arg_all :: bool
  arg_folders :: "string list option"
  arg_tags :: "string list option"
  arg_timeout :: "int option"

text \<open>
  What \<^verbatim>\<open>main\<close> runs in: the Runner and the helpers the workers use, the two
  file discovery helpers of \<^verbatim>\<open>parabot.utils\<close>, the runtime of a batch of files in
  the pool, and what becomes of the child process spawned for a tag.
\<close>

record main_env =
  runner :: runner_env
  get_all_robot_files :: "path list"
  get_specific_robot_files_by_paths :: "string list \<Rightarrow> path list"
  batch_runtime :: "path list \<Rightarrow> real"
  spawned :: "string \<Rightarrow> os_process"

text \<open>
  \<^verbatim>\<open>path_worker\<close> as a task of the pool: it runs in a process of its own, and the
  pool hands back what it returned or raised. What the task prints is printed in
  that process and is not part of the console of \<^verbatim>\<open>main\<close>.
\<close>

definition pool_task :: "main_env \<Rightarrow> path \<Rightarrow> int option result" where
  "pool_task env filepath = outcome (path_worker (runner env) filepath [])"

text \<open>
  A call used as a statement: the value is dropped, an exception or a call that
  never returns is not.
\<close>

definition statement :: "'a result \<times> console \<Rightarrow> unit result \<times> console" where
  "statement rc =
     (case rc of
        (Returns v, c) \<Rightarrow> (Returns (), c)
      | (Raises e, c) \<Rightarrow> (Raises e, c)
      | (Never_returns, c) \<Rightarrow> (Never_returns, c))"

definition and_then ::
  "unit result \<times> console \<Rightarrow> (console \<Rightarrow> unit result \<times> console) \<Rightarrow> unit result \<times> console" where
  "and_then rc next_statement =
     (case rc of
        (Returns u, c) \<Rightarrow> next_statement c
      | (Raises e, c) \<Rightarrow> (Raises e, c)
      | (Never_returns, c) \<Rightarrow> (Never_returns, c))"

text \<open>
  \<^verbatim>\<open>main\<close>: the three \<^verbatim>\<open>if\<close> statements in turn. No value of a pool is bound
  to a name, and the function ends without a \<^verbatim>\<open>return\<close>: it returns
  \<^verbatim>\<open>None\<close>, here the unit value. The function is modelled where every text can
  be printed.
\<close>

definition main :: "main_env \<Rightarrow> cli_args \<Rightarrow> console \<Rightarrow> unit result \<times> console" where
  "main env args c =
     and_then
       (if arg_all args \<and> arg_timeout args = None then
          (let filepathslist = get_all_robot_files env
           in statement (pool_path_workers_default (batch_runtime env filepathslist)
                (pool_task env) filepathslist c))
        else if arg_all args \<and> arg_timeout args \<noteq> None then
          (let filepathslist = get_all_robot_files env
           in statement (pool_path_workers (batch_runtime env filepathslist)
                (pool_task env) filepathslist (arg_timeout args) c))
        else (Returns (), c))
       (\<lambda>c. and_then
          (if arg_folders args \<noteq> None \<and> arg_timeout args = None then
             (let filepathslist = get_specific_robot_files_by_paths env (the (arg_folders args))
              in statement (pool_path_workers_default (batch_runtime env filepathslist)
                   (pool_task env) filepathslist c))
           else if arg_folders args \<noteq> None \<and> arg_timeout args \<noteq> None then
             (let filepathslist = get_specific_robot_files_by_paths env (the (arg_folders args))
              in statement (pool_path_workers (batch_runtime env filepathslist)
                   (pool_task env) filepathslist (arg_timeout args) c))
           else (Returns (), c))
          (\<lambda>c. if arg_tags args \<noteq> None then
                 statement (pool_tag_workers (spawned env) (the (arg_tags args)), c)
               else (Returns (), c)))"

text \<open>
  The module run as a script, \<^verbatim>\<open>if __name__ == "__main__": main()\<close>: the
  interpreter exits with status 0 when \<^verbatim>\<open>main\<close> returns and with status 1 when
  an exception leaves it; there is no exit status while \<^verbatim>\<open>main\<close> does not return.
\<close>

definition script_exit_status :: "main_env \<Rightarrow> cli_args \<Rightarrow> int option" where
  "script_exit_status env args =
     (case fst (main env args []) of
        Returns u \<Rightarrow> Some 0
      | Raises e \<Rightarrow> Some 1
      | Never_returns \<Rightarrow> None)"

subsection \<open>Sample environments\<close>

text \<open>
  Environments to try the functions on. The two helpers of \<^verbatim>\<open>parabot.utils\<close>
  are not among the sources; the sample environment puts arbitrary stand-ins in
  their place, and no property below depends on them: each is proved for every
  environment.
  Three Runners: one that writes nothing and returns 0, one that fails its tests
  and reports on standard error for the targets named \<^verbatim>\<open>bad.robot\<close>, and one
  that an exception leaves. Two devices that do not take every text: a pipe whose
  reader has gone, and a stream that cannot encode the error report.
\<close>

definition sample_env :: "(path \<Rightarrow> path \<Rightarrow> string list \<Rightarrow> behaviour) \<Rightarrow> runner_env" where
  "sample_env r = \<lparr>run = r, get_parent_dir = butlast,
     create_output_folder = (\<lambda>basepath filename. basepath @ [''output'', filename])\<rparr>"

definition broken_pipe :: device where
  "broken_pipe s = Some (OtherError ''BrokenPipeError'')"

definition no_error_report :: device where
  "no_error_report s =
     (if s = ''[ ERROR ] bad'' then Some (OtherError ''UnicodeEncodeError'') else None)"

definition quiet_run :: "path \<Rightarrow> path \<Rightarrow> string list \<Rightarrow> behaviour" where
  "quiet_run target outputdir incl = \<lparr>to_stdout = [], to_stderr = [], ending = Inr 0\<rparr>"

definition noisy_run :: "path \<Rightarrow> path \<Rightarrow> string list \<Rightarrow> behaviour" where
  "noisy_run target outputdir incl =
     (if path_name target = ''bad.robot''
      then \<lparr>to_stdout = ''1 test, 0 passed, 1 failed'', to_stderr = ''[ ERROR ] bad'', ending = Inr 1\<rparr>
      else \<lparr>to_stdout = ''1 test, 1 passed, 0 failed'', to_stderr = [], ending = Inr 0\<rparr>)"

definition crashing_run :: "path \<Rightarrow> path \<Rightarrow> string list \<Rightarrow> behaviour" where
  "crashing_run target outputdir incl =
     \<lparr>to_stdout = ''starting'', to_stderr = [], ending = Inl (OtherError ''interrupted'')\<rparr>"

text \<open>
  Child processes to try the unbounded pool on: the one for the tag \<^verbatim>\<open>slow\<close>
  exits with status 2 after nine seconds, the one for \<^verbatim>\<open>crash\<close> is killed by
  signal 9, the one for \<^verbatim>\<open>hang\<close> never ends, any other exits with status 0
  after three seconds.
\<close>

definition example_os :: "string \<Rightarrow> os_process" where
  "example_os tag =
     (if tag = ''slow'' then \<lparr>how_ends = Exited 2, ends_after = 9\<rparr>
      else if tag = ''crash'' then \<lparr>how_ends = Signalled 9, ends_after = 1\<rparr>
      else if tag = ''hang'' then \<lparr>how_ends = Never_ends, ends_after = 0\<rparr>
      else \<lparr>how_ends = Exited 0, ends_after = 3\<rparr>)"

text \<open>
  An environment for \<^verbatim>\<open>main\<close>: a Runner, two discovered files (or one file per
  folder asked for), a runtime for every batch that is not empty, and the
  children above.
\<close>

definition example_env :: "(path \<Rightarrow> path \<Rightarrow> string list \<Rightarrow> behaviour) \<Rightarrow> real \<Rightarrow> main_env" where
  "example_env r rt =
     \<lparr>runner = sample_env r,
      get_all_robot_files = [[''suites'', ''ok.robot''], [''suites'', ''bad.robot'']],
      get_specific_robot_files_by_paths = map (\<lambda>folder. [folder, ''bad.robot'']),
      batch_runtime = (\<lambda>filepathslist. if filepathslist = [] then 0 else rt),
      spawned = example_os\<rparr>"

section \<open>Properties\<close>

subsection \<open>What a worker invocation leaves behind\<close>

text \<open>
  The two ways out of a worker where every text can be printed. When the Runner
  returns (whatever its return code), the worker returns 1 or \<^verbatim>\<open>None\<close> with
  both buffers closed and the captured text printed; when an exception leaves the
  Runner, it leaves the worker with both buffers open and nothing printed.
\<close>

lemma path_worker_returned:
  assumes "ending (run env filepath (path_outputdir env filepath) []) = Inr rc"
  shows "path_worker env filepath c =
     (let b = run env filepath (path_outputdir env filepath) []
      in \<lparr>outcome = (if to_stderr b \<noteq> [] then Returns (Some 1) else Returns None),
          stdout_buf = \<lparr>held = to_stdout b, is_closed = True\<rparr>,
          stderr_buf = \<lparr>held = to_stderr b, is_closed = True\<rparr>,
          printed = (if to_stderr b \<noteq> [] then c @ [to_stdout b, to_stderr b] else c @ [to_stdout b])\<rparr>)"
  using assms
  by (simp add: path_worker_def path_worker_on_def print_def accepting_def Let_def getvalue_def write_text_def StringIO_def check_stderr_def check_stderr_on_def accepting_def
      close_def print_def)

lemma path_worker_raised:
  assumes "ending (run env filepath (path_outputdir env filepath) []) = Inl e"
  shows "path_worker env filepath c =
     (let b = run env filepath (path_outputdir env filepath) []
      in \<lparr>outcome = Raises e,
          stdout_buf = \<lparr>held = to_stdout b, is_closed = False\<rparr>,
          stderr_buf = \<lparr>held = to_stderr b, is_closed = False\<rparr>,
          printed = c\<rparr>)"
  using assms
  by (simp add: path_worker_def path_worker_on_def print_def accepting_def Let_def write_text_def StringIO_def)

lemma tag_worker_returned:
  assumes "ending (run env [] (tag_outputdir env tag) [tag]) = Inr rc"
  shows "tag_worker env tag c =
     (let b = run env [] (tag_outputdir env tag) [tag]
      in \<lparr>outcome = (if to_stderr b \<noteq> [] then Returns (Some 1) else Returns None),
          stdout_buf = \<lparr>held = to_stdout b, is_closed = True\<rparr>,
          stderr_buf = \<lparr>held = to_stderr b, is_closed = True\<rparr>,
          printed = (if to_stderr b \<noteq> [] then c @ [to_stdout b, to_stderr b] else c @ [to_stdout b])\<rparr>)"
  using assms
  by (simp add: tag_worker_def tag_worker_on_def print_def accepting_def Let_def getvalue_def write_text_def StringIO_def check_stderr_def check_stderr_on_def accepting_def
      close_def print_def)

lemma tag_worker_raised:
  assumes "ending (run env [] (tag_outputdir env tag) [tag]) = Inl e"
  shows "tag_worker env tag c =
     (let b = run env [] (tag_outputdir env tag) [tag]
      in \<lparr>outcome = Raises e,
          stdout_buf = \<lparr>held = to_stdout b, is_closed = False\<rparr>,
          stderr_buf = \<lparr>held = to_stderr b, is_closed = False\<rparr>,
          printed = c\<rparr>)"
  using assms
  by (simp add: tag_worker_def tag_worker_on_def print_def accepting_def Let_def write_text_def StringIO_def)

subsection \<open>Failure classification of a file job\<close>

text \<open>
  C1. Whenever the Runner returns from its run on a file, with any return code,
  \<^verbatim>\<open>path_worker\<close> returns 1 exactly when the text captured from standard error
  is not empty, and \<^verbatim>\<open>None\<close> exactly when it is empty. The captured text is what
  the Runner wrote to the stream; the return code \<^verbatim>\<open>rc\<close> occurs nowhere in the
  result.
\<close>

theorem path_worker_fail_iff_stderr:
  assumes "ending (run env filepath (path_outputdir env filepath) []) = Inr rc"
  shows "held (stderr_buf (path_worker env filepath c))
           = to_stderr (run env filepath (path_outputdir env filepath) [])
       \<and> (outcome (path_worker env filepath c) = Returns (Some 1))
           = (held (stderr_buf (path_worker env filepath c)) \<noteq> [])
       \<and> (outcome (path_worker env filepath c) = Returns None)
           = (held (stderr_buf (path_worker env filepath c)) = [])"
  by (simp add: path_worker_returned [OF assms] Let_def)

theorem path_worker_fail_iff_stderr_witness:
  "ending (run (sample_env noisy_run) [''suites'', ''bad.robot'']
       (path_outputdir (sample_env noisy_run) [''suites'', ''bad.robot'']) []) = Inr 1
   \<and> outcome (path_worker (sample_env noisy_run) [''suites'', ''bad.robot''] []) = Returns (Some 1)
   \<and> held (stderr_buf (path_worker (sample_env noisy_run) [''suites'', ''bad.robot''] [])) = ''[ ERROR ] bad''
   \<and> ending (run (sample_env noisy_run) [''suites'', ''ok.robot'']
       (path_outputdir (sample_env noisy_run) [''suites'', ''ok.robot'']) []) = Inr 0
   \<and> outcome (path_worker (sample_env noisy_run) [''suites'', ''ok.robot''] []) = Returns None"
proof -
  have bad: "ending (run (sample_env noisy_run) [''suites'', ''bad.robot'']
       (path_outputdir (sample_env noisy_run) [''suites'', ''bad.robot'']) []) = Inr 1"
    by (simp add: sample_env_def noisy_run_def path_name_def)
  have ok: "ending (run (sample_env noisy_run) [''suites'', ''ok.robot'']
       (path_outputdir (sample_env noisy_run) [''suites'', ''ok.robot'']) []) = Inr 0"
    by (simp add: sample_env_def noisy_run_def path_name_def)
  have err: "to_stderr (run (sample_env noisy_run) [''suites'', ''bad.robot'']
       (path_outputdir (sample_env noisy_run) [''suites'', ''bad.robot'']) []) = ''[ ERROR ] bad''"
    by (simp add: sample_env_def noisy_run_def path_name_def)
  have noerr: "to_stderr (run (sample_env noisy_run) [''suites'', ''ok.robot'']
       (path_outputdir (sample_env noisy_run) [''suites'', ''ok.robot'']) []) = []"
    by (simp add: sample_env_def noisy_run_def path_name_def)
  show ?thesis
    using path_worker_fail_iff_stderr [OF bad, of "[]"] path_worker_fail_iff_stderr [OF ok, of "[]"]
      bad ok err noerr
    by simp
qed


subsection \<open>Release of the capture buffers\<close>

text \<open>
  C7, as stated, fails: the workers have no \<^verbatim>\<open>try\<close> or \<^verbatim>\<open>with\<close> around the
  Runner call, so when an exception leaves the Runner on \<^verbatim>\<open>suites/a.robot\<close> it
  leaves \<^verbatim>\<open>path_worker\<close> too, and neither \<^verbatim>\<open>stdout.close()\<close> nor
  \<^verbatim>\<open>stderr.close()\<close> has run.
\<close>

theorem capture_left_open_counterexample:
  "outcome (path_worker (sample_env crashing_run) [''suites'', ''a.robot''] []) = Raises (OtherError ''interrupted'')
   \<and> \<not> is_closed (stdout_buf (path_worker (sample_env crashing_run) [''suites'', ''a.robot''] []))
   \<and> \<not> is_closed (stderr_buf (path_worker (sample_env crashing_run) [''suites'', ''a.robot''] []))"
  by (simp add: path_worker_def path_worker_on_def print_def accepting_def Let_def sample_env_def crashing_run_def write_text_def StringIO_def)

text \<open>
  C7, amended. In \<^verbatim>\<open>path_worker\<close> and in \<^verbatim>\<open>tag_worker\<close>, a capture buffer is
  closed when the invocation ends exactly when its \<^verbatim>\<open>close()\<close> was reached: the
  standard output buffer when the Runner call returned and the captured output
  was printed; the standard error buffer when, moreover, the captured error text
  was empty or was printed. When an exception leaves the Runner, or the
  \<^verbatim>\<open>print\<close> of the captured output, the same exception leaves the worker, with
  both buffers still open.
\<close>

theorem capture_closed_iff_close_reached:
  "is_closed (stdout_buf (path_worker_on dev env filepath c))
     = ((\<exists>rc. ending (run env filepath (path_outputdir env filepath) []) = Inr rc)
        \<and> dev (to_stdout (run env filepath (path_outputdir env filepath) [])) = None)
   \<and> is_closed (stderr_buf (path_worker_on dev env filepath c))
     = ((\<exists>rc. ending (run env filepath (path_outputdir env filepath) []) = Inr rc)
        \<and> dev (to_stdout (run env filepath (path_outputdir env filepath) [])) = None
        \<and> (to_stderr (run env filepath (path_outputdir env filepath) []) = []
           \<or> dev (to_stderr (run env filepath (path_outputdir env filepath) [])) = None))
   \<and> is_closed (stdout_buf (tag_worker_on dev env tag c))
     = ((\<exists>rc. ending (run env [] (tag_outputdir env tag) [tag]) = Inr rc)
        \<and> dev (to_stdout (run env [] (tag_outputdir env tag) [tag])) = None)
   \<and> is_closed (stderr_buf (tag_worker_on dev env tag c))
     = ((\<exists>rc. ending (run env [] (tag_outputdir env tag) [tag]) = Inr rc)
        \<and> dev (to_stdout (run env [] (tag_outputdir env tag) [tag])) = None
        \<and> (to_stderr (run env [] (tag_outputdir env tag) [tag]) = []
           \<or> dev (to_stderr (run env [] (tag_outputdir env tag) [tag])) = None))
   \<and> (\<forall>e. ending (run env filepath (path_outputdir env filepath) []) = Inl e
          \<longrightarrow> outcome (path_worker_on dev env filepath c) = Raises e)
   \<and> (\<forall>e. ending (run env [] (tag_outputdir env tag) [tag]) = Inl e
          \<longrightarrow> outcome (tag_worker_on dev env tag c) = Raises e)
   \<and> (\<forall>rc e. ending (run env filepath (path_outputdir env filepath) []) = Inr rc
          \<and> dev (to_stdout (run env filepath (path_outputdir env filepath) [])) = Some e
          \<longrightarrow> outcome (path_worker_on dev env filepath c) = Raises e)
   \<and> (\<forall>rc e. ending (run env [] (tag_outputdir env tag) [tag]) = Inr rc
          \<and> dev (to_stdout (run env [] (tag_outputdir env tag) [tag])) = Some e
          \<longrightarrow> outcome (tag_worker_on dev env tag c) = Raises e)"
proof -
  have w: "is_closed (stdout_buf (worker_steps_result))
             = ((\<exists>rc. ending b = Inr rc) \<and> dev (to_stdout b) = None)
         \<and> is_closed (stderr_buf (worker_steps_result))
             = ((\<exists>rc. ending b = Inr rc) \<and> dev (to_stdout b) = None
                \<and> (to_stderr b = [] \<or> dev (to_stderr b) = None))
         \<and> (\<forall>e. ending b = Inl e \<longrightarrow> outcome worker_steps_result = Raises e)
         \<and> (\<forall>rc e. ending b = Inr rc \<and> dev (to_stdout b) = Some e
                \<longrightarrow> outcome worker_steps_result = Raises e)"
    if "worker_steps_result =
         (let stdout = write_text (to_stdout b) StringIO;
              stderr = write_text (to_stderr b) StringIO
          in case ending b of
               Inl e \<Rightarrow> \<lparr>outcome = Raises e, stdout_buf = stdout, stderr_buf = stderr, printed = c\<rparr>
             | Inr rc \<Rightarrow>
                 (case getvalue stdout of
                    Inl e \<Rightarrow> \<lparr>outcome = Raises e, stdout_buf = stdout, stderr_buf = stderr, printed = c\<rparr>
                  | Inr v \<Rightarrow>
                      (case print dev v c of
                         Inl e \<Rightarrow>
                           \<lparr>outcome = Raises e, stdout_buf = stdout, stderr_buf = stderr, printed = c\<rparr>
                       | Inr c1 \<Rightarrow>
                           (case check_stderr_on dev stderr c1 of
                              (r, stderr', c') \<Rightarrow>
                                \<lparr>outcome = r, stdout_buf = close stdout, stderr_buf = stderr',
                                 printed = c'\<rparr>))))"
    for worker_steps_result :: worker_exit and b :: behaviour
    unfolding that
    by (cases "ending b"; cases "dev (to_stdout b)"; cases "dev (to_stderr b)")
       (simp_all add: Let_def getvalue_def write_text_def StringIO_def check_stderr_on_def
          close_def print_def)
  have p: "path_worker_on dev env filepath c =
         (let stdout = write_text (to_stdout (run env filepath (path_outputdir env filepath) [])) StringIO;
              stderr = write_text (to_stderr (run env filepath (path_outputdir env filepath) [])) StringIO
          in case ending (run env filepath (path_outputdir env filepath) []) of
               Inl e \<Rightarrow> \<lparr>outcome = Raises e, stdout_buf = stdout, stderr_buf = stderr, printed = c\<rparr>
             | Inr rc \<Rightarrow>
                 (case getvalue stdout of
                    Inl e \<Rightarrow> \<lparr>outcome = Raises e, stdout_buf = stdout, stderr_buf = stderr, printed = c\<rparr>
                  | Inr v \<Rightarrow>
                      (case print dev v c of
                         Inl e \<Rightarrow>
                           \<lparr>outcome = Raises e, stdout_buf = stdout, stderr_buf = stderr, printed = c\<rparr>
                       | Inr c1 \<Rightarrow>
                           (case check_stderr_on dev stderr c1 of
                              (r, stderr', c') \<Rightarrow>
                                \<lparr>outcome = r, stdout_buf = close stdout, stderr_buf = stderr',
                                 printed = c'\<rparr>))))"
    by (simp add: path_worker_on_def Let_def)
  have t: "tag_worker_on dev env tag c =
         (let stdout = write_text (to_stdout (run env [] (tag_outputdir env tag) [tag])) StringIO;
              stderr = write_text (to_stderr (run env [] (tag_outputdir env tag) [tag])) StringIO
          in case ending (run env [] (tag_outputdir env tag) [tag]) of
               Inl e \<Rightarrow> \<lparr>outcome = Raises e, stdout_buf = stdout, stderr_buf = stderr, printed = c\<rparr>
             | Inr rc \<Rightarrow>
                 (case getvalue stdout of
                    Inl e \<Rightarrow> \<lparr>outcome = Raises e, stdout_buf = stdout, stderr_buf = stderr, printed = c\<rparr>
                  | Inr v \<Rightarrow>
                      (case print dev v c of
                         Inl e \<Rightarrow>
                           \<lparr>outcome = Raises e, stdout_buf = stdout, stderr_buf = stderr, printed = c\<rparr>
                       | Inr c1 \<Rightarrow>
                           (case check_stderr_on dev stderr c1 of
                              (r, stderr', c') \<Rightarrow>
                                \<lparr>outcome = r, stdout_buf = close stdout, stderr_buf = stderr',
                                 printed = c'\<rparr>))))"
    by (simp add: tag_worker_on_def Let_def)
  show ?thesis
    using w [OF p] w [OF t] by (elim conjE, intro conjI) assumption+
qed

theorem capture_closed_iff_close_reached_witness:
  "is_closed (stdout_buf (path_worker_on accepting (sample_env noisy_run) [''suites'', ''bad.robot''] []))
   \<and> is_closed (stderr_buf (path_worker_on accepting (sample_env noisy_run) [''suites'', ''bad.robot''] []))
   \<and> is_closed (stdout_buf (path_worker_on no_error_report (sample_env noisy_run) [''suites'', ''bad.robot''] []))
   \<and> \<not> is_closed (stderr_buf (path_worker_on no_error_report (sample_env noisy_run) [''suites'', ''bad.robot''] []))
   \<and> \<not> is_closed (stdout_buf (tag_worker_on broken_pipe (sample_env noisy_run) ''smoke'' []))
   \<and> \<not> is_closed (stderr_buf (tag_worker_on broken_pipe (sample_env noisy_run) ''smoke'' []))
   \<and> outcome (tag_worker_on broken_pipe (sample_env noisy_run) ''smoke'' [])
       = Raises (OtherError ''BrokenPipeError'')
   \<and> ending (run (sample_env crashing_run) [] (tag_outputdir (sample_env crashing_run) ''smoke'') [''smoke''])
       = Inl (OtherError ''interrupted'')
   \<and> outcome (tag_worker_on accepting (sample_env crashing_run) ''smoke'' []) = Raises (OtherError ''interrupted'')
   \<and> \<not> is_closed (stdout_buf (tag_worker_on accepting (sample_env crashing_run) ''smoke'' []))
   \<and> \<not> is_closed (stderr_buf (tag_worker_on accepting (sample_env crashing_run) ''smoke'' []))"
proof -
  have a: "run (sample_env noisy_run) [''suites'', ''bad.robot'']
             (path_outputdir (sample_env noisy_run) [''suites'', ''bad.robot'']) []
           = \<lparr>to_stdout = ''1 test, 0 passed, 1 failed'', to_stderr = ''[ ERROR ] bad'', ending = Inr 1\<rparr>"
    by (simp add: sample_env_def noisy_run_def path_name_def)
  have b: "run (sample_env noisy_run) [] (tag_outputdir (sample_env noisy_run) ''smoke'') [''smoke'']
           = \<lparr>to_stdout = ''1 test, 1 passed, 0 failed'', to_stderr = [], ending = Inr 0\<rparr>"
    by (simp add: sample_env_def noisy_run_def path_name_def)
  have c: "run (sample_env crashing_run) [] (tag_outputdir (sample_env crashing_run) ''smoke'') [''smoke'']
           = \<lparr>to_stdout = ''starting'', to_stderr = [], ending = Inl (OtherError ''interrupted'')\<rparr>"
    by (simp add: sample_env_def crashing_run_def)
  note ok = capture_closed_iff_close_reached
            [of accepting "sample_env noisy_run" "[''suites'', ''bad.robot'']" "[]" "''smoke''"]
  note picky = capture_closed_iff_close_reached
            [of no_error_report "sample_env noisy_run" "[''suites'', ''bad.robot'']" "[]" "''smoke''"]
  note pipe = capture_closed_iff_close_reached
            [of broken_pipe "sample_env noisy_run" "[''suites'', ''bad.robot'']" "[]" "''smoke''"]
  note crash = capture_closed_iff_close_reached
            [of accepting "sample_env crashing_run" "[''suites'', ''bad.robot'']" "[]" "''smoke''"]
  have 1: "is_closed (stdout_buf (path_worker_on accepting (sample_env noisy_run) [''suites'', ''bad.robot''] []))"
    and 2: "is_closed (stderr_buf (path_worker_on accepting (sample_env noisy_run) [''suites'', ''bad.robot''] []))"
    using ok by (simp_all add: a accepting_def)
  have 3: "is_closed (stdout_buf (path_worker_on no_error_report (sample_env noisy_run) [''suites'', ''bad.robot''] []))"
    and 4: "\<not> is_closed (stderr_buf (path_worker_on no_error_report (sample_env noisy_run) [''suites'', ''bad.robot''] []))"
    using picky by (simp_all add: a no_error_report_def)
  have 5: "\<not> is_closed (stdout_buf (tag_worker_on broken_pipe (sample_env noisy_run) ''smoke'' []))"
    and 6: "\<not> is_closed (stderr_buf (tag_worker_on broken_pipe (sample_env noisy_run) ''smoke'' []))"
    and 7: "outcome (tag_worker_on broken_pipe (sample_env noisy_run) ''smoke'' [])
              = Raises (OtherError ''BrokenPipeError'')"
    using pipe by (simp_all add: b broken_pipe_def)
  have 8: "ending (run (sample_env crashing_run) [] (tag_outputdir (sample_env crashing_run) ''smoke'') [''smoke''])
       = Inl (OtherError ''interrupted'')"
    by (simp add: c)
  have 9: "outcome (tag_worker_on accepting (sample_env crashing_run) ''smoke'' []) = Raises (OtherError ''interrupted'')"
    and 10: "\<not> is_closed (stdout_buf (tag_worker_on accepting (sample_env crashing_run) ''smoke'' []))"
    and 11: "\<not> is_closed (stderr_buf (tag_worker_on accepting (sample_env crashing_run) ''smoke'' []))"
    using crash by (simp_all add: c)
  from 1 2 3 4 5 6 7 8 9 10 11 show ?thesis by blast
qed

subsection \<open>The bounded pool under a timeout\<close>

text \<open>
  With a timeout that the batch outlasts, a zero or negative timeout counting as
  no wait at all, or with a batch that never finishes, \<^verbatim>\<open>get\<close> raises
  \<^verbatim>\<open>TimeoutError\<close>. When every text can be printed, \<^verbatim>\<open>pool_path_workers\<close>
  appends the message to the console on a timeout.
\<close>

lemma async_get_timed_out:
  assumes "max 0 (real_of_int t) < rt \<or> gather (map worker jobs) = Never_returns"
  shows "async_get (map_async rt worker jobs) (Some t) = Raises TimeoutError"
  using assms
  by (auto simp: async_get_def map_async_def split: result.splits)

lemma pool_path_workers_unfold:
  "pool_path_workers rt worker filepathslist timeout c =
     (case async_get (map_async rt worker filepathslist) timeout of
        Returns vs \<Rightarrow> (Returns (Statuses vs), c)
      | Raises e \<Rightarrow>
          if e = TimeoutError then (Returns (Status 1), c @ [timeout_message])
          else (Raises e, c)
      | Never_returns \<Rightarrow> (Never_returns, c))"
  by (simp add: pool_path_workers_def pool_path_workers_on_def print_def accepting_def
      split: result.splits)

text \<open>
  C2, as stated, fails for the empty job list: its result is ready when it is
  created, so its runtime is 0, and \<^verbatim>\<open>get\<close> gives a ready result whatever the
  timeout. With the timeout -1, strictly less than that runtime, the call
  returns the empty list and prints nothing.
\<close>

theorem empty_batch_counterexample:
  "real_of_int (- 1) < (0::real)
   \<and> pool_path_workers 0 (\<lambda>fp. Returns None) ([]::path list) (Some (- 1)) []
       = (Returns (Statuses []), [])"
  by (simp add: pool_path_workers_unfold async_get_def map_async_def)

text \<open>
  C2, amended. For every job list that is not empty (its runtime is positive),
  when the timeout is strictly less than the batch's runtime, or the batch never
  finishes, \<^verbatim>\<open>pool_path_workers\<close> prints the message advising to raise the
  timeout, once, and returns the integer 1; should that \<^verbatim>\<open>print\<close> raise, its
  exception leaves the call. Either way what the call returns is never a list,
  whatever the tasks that had finished by then returned or raised. The empty job
  list is returned as the empty list, with nothing printed, whatever the timeout.
\<close>

theorem pool_timeout_returns_sentinel:
  "(filepathslist \<noteq> [] \<and> 0 < rt
      \<and> (real_of_int t < rt \<or> gather (map worker filepathslist) = Never_returns)
     \<longrightarrow> (dev timeout_message = None
            \<longrightarrow> pool_path_workers_on dev rt worker filepathslist (Some t) c
                  = (Returns (Status 1), c @ [timeout_message]))
         \<and> (\<forall>e. dev timeout_message = Some e
            \<longrightarrow> pool_path_workers_on dev rt worker filepathslist (Some t) c = (Raises e, c))
         \<and> (\<forall>vs. fst (pool_path_workers_on dev rt worker filepathslist (Some t) c)
                  \<noteq> Returns (Statuses vs)))
   \<and> pool_path_workers_on dev 0 worker [] timeout c = (Returns (Statuses []), c)"
proof -
  have late: "(dev timeout_message = None
            \<longrightarrow> pool_path_workers_on dev rt worker filepathslist (Some t) c
                  = (Returns (Status 1), c @ [timeout_message]))
         \<and> (\<forall>e. dev timeout_message = Some e
            \<longrightarrow> pool_path_workers_on dev rt worker filepathslist (Some t) c = (Raises e, c))
         \<and> (\<forall>vs. fst (pool_path_workers_on dev rt worker filepathslist (Some t) c)
                  \<noteq> Returns (Statuses vs))"
    if h: "0 < rt" "real_of_int t < rt \<or> gather (map worker filepathslist) = Never_returns"
  proof -
    from h have "max 0 (real_of_int t) < rt \<or> gather (map worker filepathslist) = Never_returns"
      by auto
    from async_get_timed_out [OF this] show ?thesis
      by (cases "dev timeout_message") (simp_all add: pool_path_workers_on_def print_def)
  qed
  have empty: "pool_path_workers_on dev 0 worker [] timeout c = (Returns (Statuses []), c)"
    by (cases timeout) (simp_all add: pool_path_workers_on_def async_get_def map_async_def)
  from late empty show ?thesis by blast
qed

theorem pool_timeout_returns_sentinel_witness:
  "pool_path_workers_on accepting 7 (\<lambda>fp. outcome (path_worker (sample_env noisy_run) fp []))
        [[''suites'', ''ok.robot''], [''suites'', ''bad.robot'']] (Some 5) []
       = (Returns (Status 1), [timeout_message])
   \<and> pool_path_workers_on broken_pipe 7 (\<lambda>fp. outcome (path_worker (sample_env noisy_run) fp []))
        [[''suites'', ''ok.robot''], [''suites'', ''bad.robot'']] (Some 5) []
       = (Raises (OtherError ''BrokenPipeError''), [])
   \<and> pool_path_workers_on accepting 0 (\<lambda>fp. outcome (path_worker (sample_env noisy_run) fp []))
        [] (Some (- 1)) []
       = (Returns (Statuses []), [])"
proof -
  let ?w = "\<lambda>fp. outcome (path_worker (sample_env noisy_run) fp [])"
  let ?jobs = "[[''suites'', ''ok.robot''], [''suites'', ''bad.robot'']]"
  have h: "?jobs \<noteq> [] \<and> (0::real) < 7
     \<and> (real_of_int 5 < (7::real) \<or> gather (map ?w ?jobs) = Never_returns)"
    by simp
  have 1: "pool_path_workers_on accepting 7 ?w ?jobs (Some 5) [] = (Returns (Status 1), [timeout_message])"
    using pool_timeout_returns_sentinel [of ?jobs 7 5 ?w accepting "[]" "Some (- 1)"] h
    by (simp add: accepting_def)
  have 2: "pool_path_workers_on broken_pipe 7 ?w ?jobs (Some 5) []
             = (Raises (OtherError ''BrokenPipeError''), [])"
    using pool_timeout_returns_sentinel [of ?jobs 7 5 ?w broken_pipe "[]" "Some (- 1)"] h
    by (simp add: broken_pipe_def)
  have 3: "pool_path_workers_on accepting 0 ?w [] (Some (- 1)) [] = (Returns (Statuses []), [])"
    using pool_timeout_returns_sentinel [of ?jobs 7 5 ?w accepting "[]" "Some (- 1)"]
    by simp
  from 1 2 3 show ?thesis by blast
qed

subsection \<open>The bounded pool when no timeout fires\<close>

text \<open>
  When every task returns, the gathered result is the list of the returned values,
  one per job, in the order of the jobs; and \<^verbatim>\<open>get\<close> hands it over when it
  waits without a timeout or the batch is done within the timeout.
\<close>

lemma gather_all_returned:
  assumes "\<forall>x\<in>set xs. \<exists>v. f x = Returns v"
  shows "\<exists>vs. gather (map f xs) = Returns vs \<and> length vs = length xs
           \<and> (\<forall>i<length xs. f (xs ! i) = Returns (vs ! i))"
  using assms
proof (induction xs)
  case Nil
  then show ?case by simp
next
  case (Cons x xs)
  then obtain vs where vs: "gather (map f xs) = Returns vs" "length vs = length xs"
      "\<forall>i<length xs. f (xs ! i) = Returns (vs ! i)"
    by auto
  from Cons.prems obtain v where v: "f x = Returns v" by auto
  have "gather (map f (x # xs)) = Returns (v # vs)"
    by (simp add: vs v)
  moreover have "\<forall>i<length (x # xs). f ((x # xs) ! i) = Returns ((v # vs) ! i)"
    using vs(3) v by (auto simp: nth_Cons split: nat.splits)
  ultimately show ?case using vs(2) by auto
qed

lemma async_get_in_time:
  assumes "gather (map worker jobs) = Returns vs"
    and "timeout = None \<or> (\<exists>t. timeout = Some t \<and> rt \<le> real_of_int t)"
  shows "async_get (map_async rt worker jobs) timeout = Returns vs"
  using assms
  by (auto simp: async_get_def map_async_def split: option.splits)

text \<open>
  C5. When no timeout fires (there is none, or the batch is done within it) and
  every job yields a status, \<^verbatim>\<open>pool_path_workers\<close> returns a list as long as the
  list of jobs whose i-th entry is the status of the i-th job submitted; nothing
  is printed.
\<close>

theorem pool_result_aligned:
  assumes "\<forall>fp\<in>set filepathslist. \<exists>v. worker fp = Returns v"
    and "timeout = None \<or> (\<exists>t. timeout = Some t \<and> rt \<le> real_of_int t)"
  shows "\<exists>vs. pool_path_workers rt worker filepathslist timeout c = (Returns (Statuses vs), c)
           \<and> length vs = length filepathslist
           \<and> (\<forall>i<length filepathslist. worker (filepathslist ! i) = Returns (vs ! i))"
proof -
  from gather_all_returned [OF assms(1)] obtain vs where
    vs: "gather (map worker filepathslist) = Returns vs" "length vs = length filepathslist"
      "\<forall>i<length filepathslist. worker (filepathslist ! i) = Returns (vs ! i)"
    by blast
  have "pool_path_workers rt worker filepathslist timeout c = (Returns (Statuses vs), c)"
    by (simp add: pool_path_workers_unfold async_get_in_time [OF vs(1) assms(2)])
  with vs(2,3) show ?thesis by blast
qed

theorem pool_result_aligned_witness:
  "pool_path_workers 7 (\<lambda>fp. outcome (path_worker (sample_env noisy_run) fp []))
        [[''suites'', ''bad.robot''], [''suites'', ''ok.robot'']] (Some 10) []
     = (Returns (Statuses [Some 1, None]), [])"
proof -
  let ?w = "\<lambda>fp. outcome (path_worker (sample_env noisy_run) fp [])"
  let ?jobs = "[[''suites'', ''bad.robot''], [''suites'', ''ok.robot'']]"
  have w1: "?w [''suites'', ''bad.robot''] = Returns (Some 1)"
    by (simp add: path_worker_def path_worker_on_def print_def accepting_def Let_def sample_env_def noisy_run_def path_name_def getvalue_def
        write_text_def StringIO_def check_stderr_def check_stderr_on_def accepting_def)
  have w2: "?w [''suites'', ''ok.robot''] = Returns None"
    by (simp add: path_worker_def path_worker_on_def print_def accepting_def Let_def sample_env_def noisy_run_def path_name_def getvalue_def
        write_text_def StringIO_def check_stderr_def check_stderr_on_def accepting_def)
  have h1: "\<forall>fp\<in>set ?jobs. \<exists>v. ?w fp = Returns v"
    using w1 w2 by simp
  have h2: "Some (10::int) = None \<or> (\<exists>t. Some (10::int) = Some t \<and> (7::real) \<le> real_of_int t)"
    by simp
  from pool_result_aligned [OF h1 h2, of "[]"] obtain vs where
    vs: "pool_path_workers 7 ?w ?jobs (Some 10) [] = (Returns (Statuses vs), [])"
      "length vs = length ?jobs"
      "\<forall>i<length ?jobs. ?w (?jobs ! i) = Returns (vs ! i)"
    by blast
  have "?w (?jobs ! 0) = Returns (vs ! 0)" "?w (?jobs ! 1) = Returns (vs ! 1)"
    using vs(3) [rule_format, of 0] vs(3) [rule_format, of 1] by simp_all
  with w1 w2 have "vs ! 0 = Some 1" "vs ! 1 = None" by simp_all
  moreover from vs(2) have "length vs = 2" by simp
  ultimately have "vs = [Some 1, None]"
    by (cases vs; cases "tl vs"; cases "tl (tl vs)") auto
  with vs(1) show ?thesis by simp
qed

subsection \<open>The bounded pool without a timeout argument\<close>

text \<open>
  C3, as stated, fails: the parameter is declared \<^verbatim>\<open>timeout=60\<close>, so the call
  without the argument gives up after 60 seconds. A batch that needs 61 seconds
  yields the message and the integer 1, not the list.
\<close>

theorem default_timeout_counterexample:
  "pool_path_workers_default 61 (\<lambda>fp. Returns None) [[''suites'', ''slow.robot'']] []
     = (Returns (Status 1), [timeout_message])"
  by (simp add: pool_path_workers_default_def pool_path_workers_unfold async_get_def map_async_def print_def)

text \<open>
  C3, amended. The call without a timeout argument has a budget of 60 seconds: it
  returns the list when the batch is done within 60 seconds, and the message and
  the integer 1 when the batch takes longer. Only a timeout passed as
  \<^verbatim>\<open>None\<close> makes the call wait as long as the batch takes. \<^verbatim>\<open>main\<close> makes the
  call without the argument when the timeout flag is absent: with \<^verbatim>\<open>--all\<close>
  alone and a batch longer than 60 seconds it prints the message and returns.
\<close>

theorem default_timeout_sixty:
  "(gather (map worker filepathslist) = Returns vs \<and> rt \<le> 60
      \<longrightarrow> pool_path_workers_default rt worker filepathslist c = (Returns (Statuses vs), c))
   \<and> (60 < rt
      \<longrightarrow> pool_path_workers_default rt worker filepathslist c
            = (Returns (Status 1), c @ [timeout_message]))
   \<and> (gather (map worker filepathslist) = Returns vs
      \<longrightarrow> pool_path_workers rt worker filepathslist None c = (Returns (Statuses vs), c))
   \<and> (arg_all args \<and> arg_timeout args = None \<and> arg_folders args = None \<and> arg_tags args = None
        \<and> 60 < batch_runtime env (get_all_robot_files env)
      \<longrightarrow> main env args c = (Returns (), c @ [timeout_message]))"
proof -
  have a: "gather (map worker filepathslist) = Returns vs \<and> rt \<le> 60
      \<longrightarrow> pool_path_workers_default rt worker filepathslist c = (Returns (Statuses vs), c)"
    by (simp add: pool_path_workers_default_def pool_path_workers_unfold async_get_def map_async_def)
  have b: "60 < rt \<longrightarrow> pool_path_workers_default rt worker filepathslist c
            = (Returns (Status 1), c @ [timeout_message])" for rt c
      and worker :: "'b \<Rightarrow> int option result" and filepathslist
  proof
    assume "60 < rt"
    then have "max 0 (real_of_int 60) < rt \<or> gather (map worker filepathslist) = Never_returns"
      by simp
    from async_get_timed_out [OF this] show
      "pool_path_workers_default rt worker filepathslist c = (Returns (Status 1), c @ [timeout_message])"
      by (simp add: pool_path_workers_default_def pool_path_workers_unfold print_def)
  qed
  have d: "gather (map worker filepathslist) = Returns vs
      \<longrightarrow> pool_path_workers rt worker filepathslist None c = (Returns (Statuses vs), c)"
    by (simp add: pool_path_workers_unfold async_get_def map_async_def)
  have e: "arg_all args \<and> arg_timeout args = None \<and> arg_folders args = None \<and> arg_tags args = None
        \<and> 60 < batch_runtime env (get_all_robot_files env)
      \<longrightarrow> main env args c = (Returns (), c @ [timeout_message])"
    using b [of "batch_runtime env (get_all_robot_files env)" "pool_task env" "get_all_robot_files env" c]
    by (simp add: main_def Let_def statement_def and_then_def)
  from a b d e show ?thesis by blast
qed

theorem default_timeout_sixty_witness:
  "pool_path_workers_default 60 (\<lambda>fp. Returns None) [[''suites'', ''slow.robot'']] []
     = (Returns (Statuses [None]), [])
   \<and> pool_path_workers_default 61 (\<lambda>fp. Returns (Some 1)) [[''suites'', ''slow.robot'']] []
     = (Returns (Status 1), [timeout_message])
   \<and> pool_path_workers 61 (\<lambda>fp. Returns None) [[''suites'', ''slow.robot'']] None []
     = (Returns (Statuses [None]), [])
   \<and> main (example_env quiet_run 61)
        \<lparr>arg_all = True, arg_folders = None, arg_tags = None, arg_timeout = None\<rparr> []
     = (Returns (), [timeout_message])"
  using default_timeout_sixty [where worker = "\<lambda>fp. Returns None"
          and filepathslist = "[[''suites'', ''slow.robot'']]" and vs = "[None]" and rt = 60 and c = "[]"]
        default_timeout_sixty [where worker = "\<lambda>fp. Returns (Some 1)"
          and filepathslist = "[[''suites'', ''slow.robot'']]" and vs = "[Some 1]" and rt = 61 and c = "[]"]
        default_timeout_sixty [where worker = "\<lambda>fp. Returns None"
          and filepathslist = "[[''suites'', ''slow.robot'']]" and vs = "[None]" and rt = 61 and c = "[]"
          and args = "\<lparr>arg_all = True, arg_folders = None, arg_tags = None, arg_timeout = None\<rparr>"
          and env = "example_env quiet_run 61"]
  by (simp add: example_env_def)

subsection \<open>The value of the timeout sentinel\<close>

text \<open>
  C10. On a timeout \<^verbatim>\<open>pool_path_workers\<close> returns the integer 1; a non-empty
  standard error makes \<^verbatim>\<open>_check_stderr\<close> return the integer 1 too, and a batch
  of one such job that completes returns the list holding that 1. The two return
  values differ in shape only: a bare integer is never equal to a list.
\<close>

theorem sentinel_equals_fail_status:
  "(real_of_int t < rt \<and> 0 < rt
      \<longrightarrow> fst (pool_path_workers rt worker filepathslist (Some t) c) = Returns (Status 1))
   \<and> (v \<noteq> [] \<longrightarrow> fst (check_stderr \<lparr>held = v, is_closed = False\<rparr> c) = Returns (Some 1))
   \<and> (worker fp = Returns (Some 1) \<and> rt \<le> real_of_int t
      \<longrightarrow> fst (pool_path_workers rt worker [fp] (Some t) c) = Returns (Statuses [Some 1]))
   \<and> Status 1 \<noteq> Statuses vs"
proof -
  have a: "real_of_int t < rt \<and> 0 < rt
      \<longrightarrow> fst (pool_path_workers rt worker filepathslist (Some t) c) = Returns (Status 1)"
  proof
    assume "real_of_int t < rt \<and> 0 < rt"
    then have "max 0 (real_of_int t) < rt \<or> gather (map worker filepathslist) = Never_returns"
      by simp
    from async_get_timed_out [OF this] show
      "fst (pool_path_workers rt worker filepathslist (Some t) c) = Returns (Status 1)"
      by (simp add: pool_path_workers_unfold)
  qed
  have b: "v \<noteq> [] \<longrightarrow> fst (check_stderr \<lparr>held = v, is_closed = False\<rparr> c) = Returns (Some 1)"
    by (simp add: check_stderr_def check_stderr_on_def accepting_def getvalue_def print_def)
  have d: "worker fp = Returns (Some 1) \<and> rt \<le> real_of_int t
      \<longrightarrow> fst (pool_path_workers rt worker [fp] (Some t) c) = Returns (Statuses [Some 1])"
    by (auto simp: pool_path_workers_unfold async_get_def map_async_def)
  from a b d show ?thesis by simp
qed

theorem sentinel_equals_fail_status_witness:
  "fst (pool_path_workers 7 (\<lambda>fp. Returns (Some 1)) [[''a.robot'']] (Some 5) []) = Returns (Status 1)
   \<and> fst (check_stderr \<lparr>held = ''[ ERROR ] bad'', is_closed = False\<rparr> []) = Returns (Some 1)
   \<and> fst (pool_path_workers 7 (\<lambda>fp. Returns (Some 1)) [[''a.robot'']] (Some 9) [])
       = Returns (Statuses [Some 1])
   \<and> Status 1 \<noteq> Statuses [Some 1]"
  using sentinel_equals_fail_status [of 5 7 "\<lambda>fp. Returns (Some 1)" "[[''a.robot'']]" "[]"
          "''[ ERROR ] bad''" "[''a.robot'']" "[Some 1]"]
        sentinel_equals_fail_status [of 9 7 "\<lambda>fp. Returns (Some 1)" "[[''a.robot'']]" "[]"
          "''[ ERROR ] bad''" "[''a.robot'']" "[Some 1]"]
  by simp


subsection \<open>The unbounded pool\<close>

text \<open>
  The \<^verbatim>\<open>for\<close> loop appends one started process per tag, in the order of the
  tags. Joining them in that order succeeds when every child ends, leaves every
  process joined and the clock at or after the end of every child; it blocks for
  ever as soon as one child never ends.
\<close>

lemma spawn_loop_append:
  "spawn_loop os tags procesess
     = procesess @ map (\<lambda>tag. \<lparr>p_args = tag, p_state = Started, p_child = os tag\<rparr>) tags"
  by (induction tags arbitrary: procesess) (simp_all add: Process_def start_def)

lemma join_loop_started:
  assumes "\<forall>tag\<in>set tags. how_ends (os tag) \<noteq> Never_ends"
  shows "\<exists>clock'. join_loop (map (\<lambda>tag. \<lparr>p_args = tag, p_state = Started, p_child = os tag\<rparr>) tags) clock
           = Returns (map (\<lambda>tag. \<lparr>p_args = tag, p_state = Joined, p_child = os tag\<rparr>) tags, clock')
         \<and> clock \<le> clock' \<and> (\<forall>tag\<in>set tags. ends_after (os tag) \<le> clock')"
  using assms
proof (induction tags arbitrary: clock)
  case Nil
  then show ?case by simp
next
  case (Cons tag tags)
  let ?clock1 = "max clock (ends_after (os tag))"
  from Cons.prems have rest: "\<forall>tag\<in>set tags. how_ends (os tag) \<noteq> Never_ends"
    and this_one: "how_ends (os tag) \<noteq> Never_ends"
    by simp_all
  from Cons.IH [OF rest, of ?clock1] obtain clock' where
    c: "join_loop (map (\<lambda>tag. \<lparr>p_args = tag, p_state = Started, p_child = os tag\<rparr>) tags) ?clock1
          = Returns (map (\<lambda>tag. \<lparr>p_args = tag, p_state = Joined, p_child = os tag\<rparr>) tags, clock')"
      "?clock1 \<le> clock'" "\<forall>tag\<in>set tags. ends_after (os tag) \<le> clock'"
    by blast
  have "join_loop (map (\<lambda>tag. \<lparr>p_args = tag, p_state = Started, p_child = os tag\<rparr>) (tag # tags)) clock
          = Returns (map (\<lambda>tag. \<lparr>p_args = tag, p_state = Joined, p_child = os tag\<rparr>) (tag # tags), clock')"
    using this_one c(1) by (simp add: join_def)
  moreover have "clock \<le> clock'" "ends_after (os tag) \<le> clock'"
    using c(2) by simp_all
  ultimately show ?case using c(3) by auto
qed

lemma join_loop_stuck:
  assumes "\<exists>tag\<in>set tags. how_ends (os tag) = Never_ends"
  shows "join_loop (map (\<lambda>tag. \<lparr>p_args = tag, p_state = Started, p_child = os tag\<rparr>) tags) clock
           = Never_returns"
  using assms
proof (induction tags arbitrary: clock)
  case Nil
  then show ?case by simp
next
  case (Cons tag tags)
  show ?case
  proof (cases "how_ends (os tag) = Never_ends")
    case True
    then show ?thesis by (simp add: join_def)
  next
    case False
    with Cons.prems have "\<exists>tag\<in>set tags. how_ends (os tag) = Never_ends" by simp
    from Cons.IH [OF this] False show ?thesis by (simp add: join_def)
  qed
qed

lemma pool_tag_procs_returns:
  assumes "\<forall>tag\<in>set tags. how_ends (os tag) \<noteq> Never_ends"
  shows "\<exists>clock. pool_tag_procs os tags
           = Returns (map (\<lambda>tag. \<lparr>p_args = tag, p_state = Joined, p_child = os tag\<rparr>) tags, clock)
         \<and> (\<forall>tag\<in>set tags. ends_after (os tag) \<le> clock)"
  using join_loop_started [OF assms, of 0]
  by (auto simp: pool_tag_procs_def spawn_loop_append)

lemma pool_tag_workers_returns:
  assumes "\<forall>tag\<in>set tags. how_ends (os tag) \<noteq> Never_ends"
  shows "pool_tag_workers os tags = Returns (map (\<lambda>tag. exit_status (how_ends (os tag))) tags)"
proof -
  from pool_tag_procs_returns [OF assms] obtain clock where
    "pool_tag_procs os tags
       = Returns (map (\<lambda>tag. \<lparr>p_args = tag, p_state = Joined, p_child = os tag\<rparr>) tags, clock)"
    by blast
  then show ?thesis
    by (simp add: pool_tag_workers_def exitcode_def comp_def)
qed

lemma pool_tag_workers_stuck:
  assumes "\<exists>tag\<in>set tags. how_ends (os tag) = Never_ends"
  shows "pool_tag_workers os tags = Never_returns"
  using join_loop_stuck [OF assms, of 0]
  by (simp add: pool_tag_workers_def pool_tag_procs_def spawn_loop_append)

lemma exit_status_None: "(exit_status e = None) = (e = Never_ends)"
  by (cases e) simp_all

text \<open>
  C4. For a list of N tags whose children all end, however they end,
  \<^verbatim>\<open>pool_tag_workers\<close> has created exactly N processes, one per tag in the order
  of the tags, and every one of them is joined when it returns, which is not
  before the last child has ended. It returns the N exit codes of these
  processes in the same order: the i-th entry is the exit status of the child of
  the i-th tag, so the list does not depend on when each child ended, and no
  entry is \<^verbatim>\<open>None\<close>.
\<close>

theorem pool_tag_workers_joins_all:
  assumes "\<forall>tag\<in>set tags. how_ends (os tag) \<noteq> Never_ends"
  shows "\<exists>procesess clock.
           pool_tag_procs os tags = Returns (procesess, clock)
         \<and> map p_args procesess = tags
         \<and> length procesess = length tags
         \<and> (\<forall>p\<in>set procesess. p_state p = Joined)
         \<and> (\<forall>tag\<in>set tags. ends_after (os tag) \<le> clock)
         \<and> pool_tag_workers os tags = Returns (map exitcode procesess)
         \<and> map exitcode procesess = map (\<lambda>tag. exit_status (how_ends (os tag))) tags
         \<and> length (map exitcode procesess) = length tags
         \<and> None \<notin> set (map exitcode procesess)"
proof -
  let ?ps = "map (\<lambda>tag. \<lparr>p_args = tag, p_state = Joined, p_child = os tag\<rparr>) tags"
  from pool_tag_procs_returns [OF assms] obtain clock where
    r: "pool_tag_procs os tags = Returns (?ps, clock)"
      "\<forall>tag\<in>set tags. ends_after (os tag) \<le> clock"
    by blast
  have a: "map p_args ?ps = tags" by (simp add: comp_def)
  have b: "\<forall>p\<in>set ?ps. p_state p = Joined" by auto
  have c: "map exitcode ?ps = map (\<lambda>tag. exit_status (how_ends (os tag))) tags"
    by (simp add: exitcode_def comp_def)
  have d: "pool_tag_workers os tags = Returns (map exitcode ?ps)"
    using r(1) by (simp add: pool_tag_workers_def)
  have e: "None \<notin> set (map exitcode ?ps)"
    unfolding c using assms by (auto simp: exit_status_None dest: sym)
  from r a b c d e show ?thesis
    by (intro exI [of _ ?ps] exI [of _ clock]) simp
qed

theorem pool_tag_workers_joins_all_witness:
  "pool_tag_workers example_os [''smoke'', ''slow'', ''crash''] = Returns [Some 0, Some 2, Some (- 9)]"
proof -
  have h: "\<forall>tag\<in>set [''smoke'', ''slow'', ''crash'']. how_ends (example_os tag) \<noteq> Never_ends"
    by (simp add: example_os_def)
  from pool_tag_workers_joins_all [OF h] obtain procesess clock where
    "pool_tag_workers example_os [''smoke'', ''slow'', ''crash''] = Returns (map exitcode procesess)"
    "map exitcode procesess
       = map (\<lambda>tag. exit_status (how_ends (example_os tag))) [''smoke'', ''slow'', ''crash'']"
    by blast
  then show ?thesis by (simp add: example_os_def)
qed


subsection \<open>Exit statuses of the tag jobs\<close>

text \<open>
  C8. For the i-th tag of a list whose children all end, the i-th entry of the
  list \<^verbatim>\<open>pool_tag_workers\<close> returns is 0 when the child exited with status 0,
  the positive number N when it exited with status N, and minus S when signal S
  terminated it. The entry is not 0, which is what classifies the job as failed,
  exactly when the child exited with a positive status or a signal (whose number
  is positive) terminated it.
\<close>

theorem tag_exit_status:
  assumes "\<forall>tag\<in>set tags. how_ends (os tag) \<noteq> Never_ends" and "i < length tags"
  shows "\<exists>codes. pool_tag_workers os tags = Returns codes \<and> length codes = length tags
     \<and> (how_ends (os (tags ! i)) = Exited 0 \<longrightarrow> codes ! i = Some 0)
     \<and> (\<forall>n. 0 < n \<and> how_ends (os (tags ! i)) = Exited n \<longrightarrow> codes ! i = Some (int n) \<and> 0 < int n)
     \<and> (\<forall>s. how_ends (os (tags ! i)) = Signalled s \<longrightarrow> codes ! i = Some (- int s))
     \<and> (codes ! i \<noteq> Some 0)
         = (\<exists>n>0. how_ends (os (tags ! i)) = Exited n \<or> how_ends (os (tags ! i)) = Signalled n)"
proof -
  let ?codes = "map (\<lambda>tag. exit_status (how_ends (os tag))) tags"
  have r: "pool_tag_workers os tags = Returns ?codes"
    by (rule pool_tag_workers_returns [OF assms(1)])
  have i: "?codes ! i = exit_status (how_ends (os (tags ! i)))"
    using assms(2) by simp
  have ends: "how_ends (os (tags ! i)) \<noteq> Never_ends"
    using assms by simp
  have cls: "(?codes ! i \<noteq> Some 0)
         = (\<exists>n>0. how_ends (os (tags ! i)) = Exited n \<or> how_ends (os (tags ! i)) = Signalled n)"
    unfolding i using ends by (cases "how_ends (os (tags ! i))") auto
  show ?thesis
    using r cls by (intro exI [of _ ?codes]) (simp add: i)
qed

theorem tag_exit_status_witness:
  "\<exists>codes. pool_tag_workers example_os [''smoke'', ''slow'', ''crash''] = Returns codes
     \<and> codes ! 0 = Some 0 \<and> codes ! 1 = Some 2 \<and> codes ! 2 = Some (- 9)"
proof -
  have h: "\<forall>tag\<in>set [''smoke'', ''slow'', ''crash'']. how_ends (example_os tag) \<noteq> Never_ends"
    by (simp add: example_os_def)
  have e0: "how_ends (example_os ([''smoke'', ''slow'', ''crash''] ! 0)) = Exited 0"
    and e1: "how_ends (example_os ([''smoke'', ''slow'', ''crash''] ! 1)) = Exited 2"
    and e2: "how_ends (example_os ([''smoke'', ''slow'', ''crash''] ! 2)) = Signalled 9"
    by (simp_all add: example_os_def)
  from tag_exit_status [OF h, of 0] obtain c0 where
    c0: "pool_tag_workers example_os [''smoke'', ''slow'', ''crash''] = Returns c0" "c0 ! 0 = Some 0"
    using e0 by auto
  from tag_exit_status [OF h, of 1] obtain c1 where
    c1: "pool_tag_workers example_os [''smoke'', ''slow'', ''crash''] = Returns c1" "c1 ! 1 = Some 2"
    using e1 by auto
  from tag_exit_status [OF h, of 2] obtain c2 where
    c2: "pool_tag_workers example_os [''smoke'', ''slow'', ''crash''] = Returns c2" "c2 ! 2 = Some (- 9)"
    using e2 by auto
  from c0 c1 c2 show ?thesis by auto
qed

subsection \<open>What main returns\<close>

text \<open>
  When the Runner returns from every call, every task of the pool returns a
  status, and a call of \<^verbatim>\<open>pool_path_workers\<close> with a timeout returns, with the
  list or with the integer 1; as a statement, it leaves nothing but the console.
\<close>

lemma pool_task_returns:
  assumes "\<forall>target outputdir incl. \<exists>rc. ending (run (runner env) target outputdir incl) = Inr rc"
  shows "\<exists>v. pool_task env filepath = Returns v"
proof -
  from assms obtain rc where
    "ending (run (runner env) filepath (path_outputdir (runner env) filepath) []) = Inr rc"
    by blast
  from path_worker_returned [OF this, of "[]"] show ?thesis
    by (simp add: pool_task_def Let_def)
qed

lemma pool_path_workers_returns:
  assumes "\<forall>fp\<in>set filepathslist. \<exists>v. worker fp = Returns v"
  shows "\<exists>r c'. pool_path_workers rt worker filepathslist (Some t) c = (Returns r, c')"
proof (cases "rt \<le> max 0 (real_of_int t)")
  case True
  from gather_all_returned [OF assms] obtain vs where
    "gather (map worker filepathslist) = Returns vs" by blast
  with True have "async_get (map_async rt worker filepathslist) (Some t) = Returns vs"
    by (simp add: async_get_def map_async_def)
  then show ?thesis
    by (simp add: pool_path_workers_unfold)
next
  case False
  then have "max 0 (real_of_int t) < rt \<or> gather (map worker filepathslist) = Never_returns"
    by linarith
  from async_get_timed_out [OF this] show ?thesis
    by (simp add: pool_path_workers_unfold)
qed

lemma statement_pool_returns:
  assumes "\<forall>target outputdir incl. \<exists>rc. ending (run (runner env) target outputdir incl) = Inr rc"
  shows "\<exists>c'. statement (pool_path_workers rt (pool_task env) filepathslist (Some t) c) = (Returns (), c')"
proof -
  have "\<forall>fp\<in>set filepathslist. \<exists>v. pool_task env fp = Returns v"
    using pool_task_returns [OF assms] by blast
  from pool_path_workers_returns [OF this, of rt t c] show ?thesis
    by (auto simp: statement_def)
qed

text \<open>
  C6. Whenever the Runner returns from every call and the children of the tags
  asked for all end, \<^verbatim>\<open>main\<close> returns \<^verbatim>\<open>None\<close> and the script exits with
  status 0: whatever the statuses of the file jobs, whether or not a batch timed
  out, and whatever the exit codes of the tag jobs. The values the two pools
  return reach neither.
\<close>

theorem main_returns_none:
  assumes "\<forall>target outputdir incl. \<exists>rc. ending (run (runner env) target outputdir incl) = Inr rc"
    and "\<forall>tags. arg_tags args = Some tags
           \<longrightarrow> (\<forall>tag\<in>set tags. how_ends (spawned env tag) \<noteq> Never_ends)"
  shows "fst (main env args c) = Returns () \<and> script_exit_status env args = Some 0"
proof -
  have step1: "\<exists>c'. (if arg_all args \<and> arg_timeout args = None then
          (let filepathslist = get_all_robot_files env
           in statement (pool_path_workers_default (batch_runtime env filepathslist)
                (pool_task env) filepathslist c))
        else if arg_all args \<and> arg_timeout args \<noteq> None then
          (let filepathslist = get_all_robot_files env
           in statement (pool_path_workers (batch_runtime env filepathslist)
                (pool_task env) filepathslist (arg_timeout args) c))
        else (Returns (), c)) = (Returns (), c')" for c
    using statement_pool_returns [OF assms(1)]
    by (auto simp: Let_def pool_path_workers_default_def)
  have step2: "\<exists>c'. (if arg_folders args \<noteq> None \<and> arg_timeout args = None then
             (let filepathslist = get_specific_robot_files_by_paths env (the (arg_folders args))
              in statement (pool_path_workers_default (batch_runtime env filepathslist)
                   (pool_task env) filepathslist c))
           else if arg_folders args \<noteq> None \<and> arg_timeout args \<noteq> None then
             (let filepathslist = get_specific_robot_files_by_paths env (the (arg_folders args))
              in statement (pool_path_workers (batch_runtime env filepathslist)
                   (pool_task env) filepathslist (arg_timeout args) c))
           else (Returns (), c)) = (Returns (), c')" for c
    using statement_pool_returns [OF assms(1)]
    by (auto simp: Let_def pool_path_workers_default_def)
  have step3: "(if arg_tags args \<noteq> None then
                 statement (pool_tag_workers (spawned env) (the (arg_tags args)), c)
               else (Returns (), c)) = (Returns (), c)" for c
  proof (cases "arg_tags args")
    case None
    then show ?thesis by simp
  next
    case (Some tags)
    with assms(2) have "\<forall>tag\<in>set tags. how_ends (spawned env tag) \<noteq> Never_ends" by simp
    from pool_tag_workers_returns [OF this] Some show ?thesis
      by (simp add: statement_def)
  qed
  have m: "fst (main env args c) = Returns ()" for c
  proof -
    from step1 [of c] obtain c1 where c1: "(if arg_all args \<and> arg_timeout args = None then
          (let filepathslist = get_all_robot_files env
           in statement (pool_path_workers_default (batch_runtime env filepathslist)
                (pool_task env) filepathslist c))
        else if arg_all args \<and> arg_timeout args \<noteq> None then
          (let filepathslist = get_all_robot_files env
           in statement (pool_path_workers (batch_runtime env filepathslist)
                (pool_task env) filepathslist (arg_timeout args) c))
        else (Returns (), c)) = (Returns (), c1)" by blast
    from step2 [of c1] obtain c2 where c2: "(if arg_folders args \<noteq> None \<and> arg_timeout args = None then
             (let filepathslist = get_specific_robot_files_by_paths env (the (arg_folders args))
              in statement (pool_path_workers_default (batch_runtime env filepathslist)
                   (pool_task env) filepathslist c1))
           else if arg_folders args \<noteq> None \<and> arg_timeout args \<noteq> None then
             (let filepathslist = get_specific_robot_files_by_paths env (the (arg_folders args))
              in statement (pool_path_workers (batch_runtime env filepathslist)
                   (pool_task env) filepathslist (arg_timeout args) c1))
           else (Returns (), c1)) = (Returns (), c2)" by blast
    show ?thesis
      unfolding main_def c1 and_then_def
      by (simp only: prod.case result.case c2 step3 fst_conv)
  qed
  from m [of c] m [of "[]"] show ?thesis
    by (simp add: script_exit_status_def)
qed


theorem main_returns_none_witness:
  "fst (main (example_env noisy_run 7)
          \<lparr>arg_all = True, arg_folders = Some [''regression''],
           arg_tags = Some [''smoke'', ''slow'', ''crash''], arg_timeout = Some 5\<rparr> []) = Returns ()
   \<and> script_exit_status (example_env noisy_run 7)
          \<lparr>arg_all = True, arg_folders = Some [''regression''],
           arg_tags = Some [''smoke'', ''slow'', ''crash''], arg_timeout = Some 5\<rparr> = Some 0
   \<and> script_exit_status (example_env noisy_run 7)
          \<lparr>arg_all = True, arg_folders = None, arg_tags = None, arg_timeout = None\<rparr> = Some 0
   \<and> script_exit_status (example_env quiet_run 7)
          \<lparr>arg_all = True, arg_folders = None, arg_tags = Some [''smoke''], arg_timeout = None\<rparr> = Some 0"
proof -
  have noisy: "\<forall>target outputdir incl.
      \<exists>rc. ending (run (runner (example_env noisy_run 7)) target outputdir incl) = Inr rc"
    by (simp add: example_env_def sample_env_def noisy_run_def)
  have quiet: "\<forall>target outputdir incl.
      \<exists>rc. ending (run (runner (example_env quiet_run 7)) target outputdir incl) = Inr rc"
    by (simp add: example_env_def sample_env_def quiet_run_def)
  have t1: "\<forall>tags. arg_tags \<lparr>arg_all = True, arg_folders = Some [''regression''],
           arg_tags = Some [''smoke'', ''slow'', ''crash''], arg_timeout = Some 5\<rparr> = Some tags
      \<longrightarrow> (\<forall>tag\<in>set tags. how_ends (spawned (example_env noisy_run 7) tag) \<noteq> Never_ends)"
    by (simp add: example_env_def example_os_def)
  have t2: "\<forall>tags. arg_tags \<lparr>arg_all = True, arg_folders = None, arg_tags = None, arg_timeout = None\<rparr>
        = Some tags
      \<longrightarrow> (\<forall>tag\<in>set tags. how_ends (spawned (example_env noisy_run 7) tag) \<noteq> Never_ends)"
    by simp
  have t3: "\<forall>tags. arg_tags \<lparr>arg_all = True, arg_folders = None, arg_tags = Some [''smoke''],
           arg_timeout = None\<rparr> = Some tags
      \<longrightarrow> (\<forall>tag\<in>set tags. how_ends (spawned (example_env quiet_run 7) tag) \<noteq> Never_ends)"
    by (simp add: example_env_def example_os_def)
  show ?thesis
    using main_returns_none [OF noisy t1, of "[]"] main_returns_none [OF noisy t2, of "[]"]
      main_returns_none [OF quiet t3, of "[]"]
    by simp
qed

end
